theory Spec2Isabelle
  imports Complex_Main
begin

section \<open>Spin images with a support angle\<close>

text \<open>
  A shallow embedding of \<^verbatim>\<open>compute_spin_image_with_support_angle\<close> of
  \<^verbatim>\<open>src/spin_image.py\<close>.

  The function works on numpy double precision numbers. They are modelled as
  real numbers extended with the three special values that numpy produces
  instead of raising: the two infinities and NaN. Rounding and overflow of
  finite values are not modelled (a finite operation on finite operands gives
  the exact real result), and neither is the sign of zero. Every place where
  the Python code can raise is a value of \<open>error + 'a\<close>.
\<close>

subsection \<open>Numbers\<close>

datatype npfloat = Fin real | PInf | NInf | NaN

datatype error = ValueError | OverflowError | IndexError

fun np_neg :: "npfloat \<Rightarrow> npfloat" where
  "np_neg (Fin x) = Fin (- x)"
| "np_neg PInf = NInf"
| "np_neg NInf = PInf"
| "np_neg NaN = NaN"

fun np_add :: "npfloat \<Rightarrow> npfloat \<Rightarrow> npfloat" where
  "np_add (Fin x) (Fin y) = Fin (x + y)"
| "np_add NaN _ = NaN"
| "np_add _ NaN = NaN"
| "np_add PInf NInf = NaN"
| "np_add NInf PInf = NaN"
| "np_add PInf _ = PInf"
| "np_add _ PInf = PInf"
| "np_add NInf _ = NInf"
| "np_add _ NInf = NInf"

definition np_sub :: "npfloat \<Rightarrow> npfloat \<Rightarrow> npfloat" where
  "np_sub x y = np_add x (np_neg y)"

text \<open>The sign of an infinite product: \<open>PInf\<close> for a positive factor,
  \<open>NInf\<close> for a negative one, NaN for zero.\<close>

definition inf_times :: "bool \<Rightarrow> real \<Rightarrow> npfloat" where
  "inf_times pos y =
     (if y = 0 then NaN else if (0 < y) = pos then PInf else NInf)"

fun np_mul :: "npfloat \<Rightarrow> npfloat \<Rightarrow> npfloat" where
  "np_mul (Fin x) (Fin y) = Fin (x * y)"
| "np_mul NaN _ = NaN"
| "np_mul _ NaN = NaN"
| "np_mul PInf (Fin y) = inf_times True y"
| "np_mul NInf (Fin y) = inf_times False y"
| "np_mul (Fin x) PInf = inf_times True x"
| "np_mul (Fin x) NInf = inf_times False x"
| "np_mul PInf PInf = PInf"
| "np_mul NInf NInf = PInf"
| "np_mul PInf NInf = NInf"
| "np_mul NInf PInf = NInf"

text \<open>numpy division: a division by zero is not an exception, it gives an
  infinity, or NaN for \<open>0 / 0\<close>.\<close>

fun np_div :: "npfloat \<Rightarrow> npfloat \<Rightarrow> npfloat" where
  "np_div (Fin x) (Fin y) =
     (if y = 0 then (if x = 0 then NaN else if 0 < x then PInf else NInf)
      else Fin (x / y))"
| "np_div NaN _ = NaN"
| "np_div _ NaN = NaN"
| "np_div (Fin x) PInf = Fin 0"
| "np_div (Fin x) NInf = Fin 0"
| "np_div PInf (Fin y) = (if 0 \<le> y then PInf else NInf)"
| "np_div NInf (Fin y) = (if 0 \<le> y then NInf else PInf)"
| "np_div _ _ = NaN"

text \<open>\<^verbatim>\<open>np.sqrt\<close> of a negative number is NaN (with a warning), not an
  exception.\<close>

fun np_sqrt :: "npfloat \<Rightarrow> npfloat" where
  "np_sqrt (Fin x) = (if x < 0 then NaN else Fin (sqrt x))"
| "np_sqrt PInf = PInf"
| "np_sqrt NInf = NaN"
| "np_sqrt NaN = NaN"

fun np_cos :: "npfloat \<Rightarrow> npfloat" where
  "np_cos (Fin x) = Fin (cos x)"
| "np_cos _ = NaN"

fun np_floor :: "npfloat \<Rightarrow> npfloat" where
  "np_floor (Fin x) = Fin (of_int \<lfloor>x\<rfloor>)"
| "np_floor x = x"

text \<open>\<open>x < y\<close> on floats: every comparison with NaN is false.\<close>

fun np_less :: "npfloat \<Rightarrow> npfloat \<Rightarrow> bool" where
  "np_less (Fin x) (Fin y) = (x < y)"
| "np_less NaN _ = False"
| "np_less _ NaN = False"
| "np_less NInf NInf = False"
| "np_less NInf _ = True"
| "np_less _ NInf = False"
| "np_less PInf _ = False"
| "np_less _ PInf = True"

text \<open>Python's \<^verbatim>\<open>int(x)\<close> truncates a finite float towards zero and raises
  \<^verbatim>\<open>ValueError\<close> on NaN and \<^verbatim>\<open>OverflowError\<close> on an infinity.\<close>

fun py_int :: "npfloat \<Rightarrow> error + int" where
  "py_int (Fin x) = Inr (if 0 \<le> x then \<lfloor>x\<rfloor> else \<lceil>x\<rceil>)"
| "py_int NaN = Inl ValueError"
| "py_int PInf = Inl OverflowError"
| "py_int NInf = Inl OverflowError"

subsection \<open>Vectors and the point cloud\<close>

type_synonym vec = "npfloat \<times> npfloat \<times> npfloat"

fun np_dot :: "vec \<Rightarrow> vec \<Rightarrow> npfloat" where
  "np_dot (x1, y1, z1) (x2, y2, z2) =
     np_add (np_add (np_mul x1 x2) (np_mul y1 y2)) (np_mul z1 z2)"

fun vsub :: "vec \<Rightarrow> vec \<Rightarrow> vec" where
  "vsub (x1, y1, z1) (x2, y2, z2) = (np_sub x1 x2, np_sub y1 y2, np_sub z1 z2)"

text \<open>\<^verbatim>\<open>np.linalg.norm\<close>: the square root of the sum of the squares.\<close>

definition np_linalg_norm :: "vec \<Rightarrow> npfloat" where
  "np_linalg_norm d = np_sqrt (np_dot d d)"

text \<open>The only fields of the \<^verbatim>\<open>open3d\<close> point cloud that the function reads.\<close>

record chunk =
  points :: "vec list"
  normals :: "vec list"

subsection \<open>The histogram\<close>

type_synonym grid = "npfloat list list"

text \<open>\<^verbatim>\<open>np.zeros((resolution, resolution))\<close> raises \<^verbatim>\<open>ValueError\<close> on a negative
  dimension.\<close>

definition np_zeros :: "int \<Rightarrow> error + grid" where
  "np_zeros resolution =
     (if resolution < 0 then Inl ValueError
      else Inr (replicate (nat resolution) (replicate (nat resolution) (Fin 0))))"

text \<open>An index into an axis of length \<open>n\<close>: a negative index counts from the
  end, anything else out of range raises \<^verbatim>\<open>IndexError\<close>.\<close>

definition np_index :: "nat \<Rightarrow> int \<Rightarrow> error + nat" where
  "np_index n i =
     (if 0 \<le> i \<and> i < int n then Inr (nat i)
      else if - int n \<le> i \<and> i < 0 then Inr (nat (int n + i))
      else Inl IndexError)"

text \<open>\<^verbatim>\<open>SI[i, j] += w\<close>.\<close>

definition iadd_at :: "grid \<Rightarrow> int \<Rightarrow> int \<Rightarrow> npfloat \<Rightarrow> error + grid" where
  "iadd_at SI i j w =
     (case np_index (length SI) i of
        Inl e \<Rightarrow> Inl e
      | Inr r \<Rightarrow>
          (case np_index (length (SI ! r)) j of
             Inl e \<Rightarrow> Inl e
           | Inr c \<Rightarrow> Inr (SI[r := (SI ! r)[c := np_add (SI ! r ! c) w]])))"

subsection \<open>The body of the loop\<close>

text \<open>Lines 42 to 44: \<open>d = x - Oref\<close> (\<open>Oref\<close> is the reference point,
  \<^verbatim>\<open>O\<close> in the source), \<open>\<alpha>\<close> and \<open>\<beta>\<close>. There is no clamp under the
  square root.\<close>

definition beta_of :: "vec \<Rightarrow> vec \<Rightarrow> vec \<Rightarrow> npfloat" where
  "beta_of n_A Oref x = np_dot n_A (vsub x Oref)"

definition alpha_of :: "vec \<Rightarrow> vec \<Rightarrow> vec \<Rightarrow> npfloat" where
  "alpha_of n_A Oref x =
     (let d = vsub x Oref
      in np_sqrt (np_sub (np_mul (np_linalg_norm d) (np_linalg_norm d))
                         (np_mul (np_dot n_A d) (np_dot n_A d))))"

text \<open>The two bin coordinates before rounding. \<^verbatim>\<open>resolution / 2\<close> is Python's
  true division of an integer.\<close>

definition i_f :: "npfloat \<Rightarrow> npfloat \<Rightarrow> int \<Rightarrow> npfloat" where
  "i_f beta bin_size resolution =
     np_sub (Fin (real_of_int resolution / 2)) (np_div beta bin_size)"

definition j_f :: "npfloat \<Rightarrow> npfloat \<Rightarrow> npfloat" where
  "j_f alpha bin_size = np_div alpha bin_size"

text \<open>Lines 47 and 48: \<open>i\<close> is converted first, then \<open>j\<close>.\<close>

definition bin_indices :: "npfloat \<Rightarrow> npfloat \<Rightarrow> npfloat \<Rightarrow> int \<Rightarrow> error + int \<times> int" where
  "bin_indices alpha beta bin_size resolution =
     (case py_int (np_floor (i_f beta bin_size resolution)) of
        Inl e \<Rightarrow> Inl e
      | Inr i \<Rightarrow>
          (case py_int (np_floor (j_f alpha bin_size)) of
             Inl e \<Rightarrow> Inl e
           | Inr j \<Rightarrow> Inr (i, j)))"

text \<open>Line 50.\<close>

definition in_bounds :: "int \<Rightarrow> int \<Rightarrow> int \<Rightarrow> bool" where
  "in_bounds resolution i j =
     (0 \<le> i \<and> i < resolution - 1 \<and> 0 \<le> j \<and> j < resolution - 1)"

text \<open>Lines 52 and 53, and the four weights of lines 56 to 59 in the order of
  the source: for \<open>(i, j)\<close>, \<open>(i + 1, j)\<close>, \<open>(i, j + 1)\<close> and
  \<open>(i + 1, j + 1)\<close>.\<close>

definition frac_a :: "npfloat \<Rightarrow> npfloat \<Rightarrow> int \<Rightarrow> npfloat" where
  "frac_a alpha bin_size j = np_sub (np_div alpha bin_size) (Fin (of_int j))"

definition frac_b :: "npfloat \<Rightarrow> npfloat \<Rightarrow> int \<Rightarrow> int \<Rightarrow> npfloat" where
  "frac_b beta bin_size resolution i =
     np_sub (np_sub (Fin (real_of_int resolution / 2)) (np_div beta bin_size))
            (Fin (of_int i))"

definition bilinear_weights :: "npfloat \<Rightarrow> npfloat \<Rightarrow> npfloat \<times> npfloat \<times> npfloat \<times> npfloat" where
  "bilinear_weights a b =
     (np_mul (np_sub (Fin 1) a) (np_sub (Fin 1) b),
      np_mul a (np_sub (Fin 1) b),
      np_mul (np_sub (Fin 1) a) b,
      np_mul a b)"

definition accumulate :: "grid \<Rightarrow> int \<Rightarrow> int \<Rightarrow> npfloat \<Rightarrow> npfloat \<Rightarrow> error + grid" where
  "accumulate SI i j a b =
     (case bilinear_weights a b of (w00, w10, w01, w11) \<Rightarrow>
        (case iadd_at SI i j w00 of
           Inl e \<Rightarrow> Inl e
         | Inr SI1 \<Rightarrow>
             (case iadd_at SI1 (i + 1) j w10 of
                Inl e \<Rightarrow> Inl e
              | Inr SI2 \<Rightarrow>
                  (case iadd_at SI2 i (j + 1) w01 of
                     Inl e \<Rightarrow> Inl e
                   | Inr SI3 \<Rightarrow> iadd_at SI3 (i + 1) (j + 1) w11))))"

text \<open>Lines 42 to 59: what happens to a neighbour that was not skipped by the
  angle test.\<close>

definition bin_neighbor :: "vec \<Rightarrow> vec \<Rightarrow> npfloat \<Rightarrow> int \<Rightarrow> grid \<Rightarrow> vec \<Rightarrow> error + grid" where
  "bin_neighbor n_A Oref bin_size resolution SI x =
     (let alpha = alpha_of n_A Oref x; beta = beta_of n_A Oref x
      in case bin_indices alpha beta bin_size resolution of
           Inl e \<Rightarrow> Inl e
         | Inr (i, j) \<Rightarrow>
             if in_bounds resolution i j
             then accumulate SI i j (frac_a alpha bin_size j)
                    (frac_b beta bin_size resolution i)
             else Inr SI)"

text \<open>Line 38: the test that skips a neighbour.\<close>

definition outside_support_angle :: "vec \<Rightarrow> vec \<Rightarrow> npfloat \<Rightarrow> bool" where
  "outside_support_angle n_A n_B cos_threshold = np_less (np_dot n_A n_B) cos_threshold"

subsection \<open>The loop and the function\<close>

text \<open>The loop over \<^verbatim>\<open>zip(points, normals)\<close>; an exception in the body ends
  it. The threshold is a parameter of the loop: it is computed before it.\<close>

fun spin_loop :: "vec \<Rightarrow> vec \<Rightarrow> npfloat \<Rightarrow> int \<Rightarrow> npfloat \<Rightarrow> grid \<Rightarrow> (vec \<times> vec) list \<Rightarrow> error + grid" where
  "spin_loop n_A Oref bin_size resolution cos_threshold SI [] = Inr SI"
| "spin_loop n_A Oref bin_size resolution cos_threshold SI ((x, n_B) # rest) =
     (if outside_support_angle n_A n_B cos_threshold
      then spin_loop n_A Oref bin_size resolution cos_threshold SI rest
      else (case bin_neighbor n_A Oref bin_size resolution SI x of
              Inl e \<Rightarrow> Inl e
            | Inr SI' \<Rightarrow> spin_loop n_A Oref bin_size resolution cos_threshold SI' rest))"

definition compute_spin_image_with_support_angle ::
  "vec \<times> vec \<Rightarrow> chunk \<Rightarrow> npfloat \<Rightarrow> npfloat \<Rightarrow> int \<Rightarrow> npfloat \<Rightarrow> error + grid" where
  "compute_spin_image_with_support_angle oriented_point chnk support_radius bin_size
       resolution support_angle =
     (let Oref = fst oriented_point; n_A = snd oriented_point
      in case np_zeros resolution of
           Inl e \<Rightarrow> Inl e
         | Inr SI \<Rightarrow>
             (let cos_threshold = np_cos support_angle
              in spin_loop n_A Oref bin_size resolution cos_threshold SI
                   (zip (points chnk) (normals chnk))))"

subsection \<open>Finite inputs\<close>

text \<open>A vector of three finite numbers, and the exact dot product.\<close>

fun fvec :: "real \<times> real \<times> real \<Rightarrow> vec" where
  "fvec (x, y, z) = (Fin x, Fin y, Fin z)"

declare fvec.simps [simp del]

fun rdot :: "real \<times> real \<times> real \<Rightarrow> real \<times> real \<times> real \<Rightarrow> real" where
  "rdot (x1, y1, z1) (x2, y2, z2) = x1 * x2 + y1 * y2 + z1 * z2"

fun rsub :: "real \<times> real \<times> real \<Rightarrow> real \<times> real \<times> real \<Rightarrow> real \<times> real \<times> real" where
  "rsub (x1, y1, z1) (x2, y2, z2) = (x1 - x2, y1 - y2, z1 - z2)"

text \<open>On finite inputs: the number under the square root of line 43, and the
  exact values of \<open>\<beta>\<close> and \<open>\<alpha>\<close>.\<close>

definition radicand :: "real \<times> real \<times> real \<Rightarrow> real \<times> real \<times> real \<Rightarrow> real \<times> real \<times> real \<Rightarrow> real" where
  "radicand n p x = rdot (rsub x p) (rsub x p) - (rdot n (rsub x p))\<^sup>2"

definition rbeta :: "real \<times> real \<times> real \<Rightarrow> real \<times> real \<times> real \<Rightarrow> real \<times> real \<times> real \<Rightarrow> real" where
  "rbeta n p x = rdot n (rsub x p)"

definition ralpha :: "real \<times> real \<times> real \<Rightarrow> real \<times> real \<times> real \<Rightarrow> real \<times> real \<times> real \<Rightarrow> real" where
  "ralpha n p x = sqrt (radicand n p x)"


definition fgrid :: "real list list \<Rightarrow> grid" where
  "fgrid rg = map (map Fin) rg"


definition square :: "nat \<Rightarrow> 'a list list \<Rightarrow> bool" where
  "square n g = (length g = n \<and> list_all (\<lambda>row. length row = n) g)"

definition radd_at :: "real list list \<Rightarrow> nat \<Rightarrow> nat \<Rightarrow> real \<Rightarrow> real list list" where
  "radd_at rg r c w = rg[r := (rg ! r)[c := rg ! r ! c + w]]"

definition raccumulate :: "real list list \<Rightarrow> nat \<Rightarrow> nat \<Rightarrow> real \<Rightarrow> real \<Rightarrow> real list list" where
  "raccumulate rg r c a b =
     radd_at (radd_at (radd_at (radd_at rg r c ((1 - a) * (1 - b)))
                               (r + 1) c (a * (1 - b)))
                      r (c + 1) ((1 - a) * b))
             (r + 1) (c + 1) (a * b)"

text \<open>A neighbour that contributes nothing: skipped by the angle test, or
  given indices that fail the bounds check. The histogram of zeros.\<close>

definition dropped :: "vec \<Rightarrow> vec \<Rightarrow> npfloat \<Rightarrow> int \<Rightarrow> npfloat \<Rightarrow> vec \<times> vec \<Rightarrow> bool" where
  "dropped n_A Oref bin_size resolution cos_threshold nb =
     (case nb of (x, n_B) \<Rightarrow>
        outside_support_angle n_A n_B cos_threshold \<or>
        (case bin_indices (alpha_of n_A Oref x) (beta_of n_A Oref x) bin_size resolution of
           Inl e \<Rightarrow> False
         | Inr (i, j) \<Rightarrow> \<not> in_bounds resolution i j))"

definition zero_grid :: "int \<Rightarrow> grid" where
  "zero_grid resolution = replicate (nat resolution) (replicate (nat resolution) (Fin 0))"


definition unit_vec :: "real \<times> real \<times> real \<Rightarrow> bool" where
  "unit_vec v = (rdot v v = 1)"


section \<open>Properties\<close>

subsection \<open>Finite vectors\<close>

lemma np_dot_fvec [simp]: "np_dot (fvec u) (fvec v) = Fin (rdot u v)"
  by (cases u; cases v) (simp add: fvec.simps)

lemma vsub_fvec [simp]: "vsub (fvec u) (fvec v) = fvec (rsub u v)"
  by (cases u; cases v) (simp add: np_sub_def fvec.simps)

lemma rdot_self_nonneg: "0 \<le> rdot d d"
  by (cases d) simp

text \<open>The Cauchy-Schwarz inequality in three dimensions, from Lagrange's
  identity.\<close>

lemma rdot_cauchy_schwarz: "(rdot u v)\<^sup>2 \<le> rdot u u * rdot v v"
proof -
  obtain a1 a2 a3 where u: "u = (a1, a2, a3)" by (cases u)
  obtain b1 b2 b3 where v: "v = (b1, b2, b3)" by (cases v)
  have "rdot u u * rdot v v - (rdot u v)\<^sup>2 =
        (a1 * b2 - a2 * b1)\<^sup>2 + (a1 * b3 - a3 * b1)\<^sup>2 + (a2 * b3 - a3 * b2)\<^sup>2"
    by (simp add: u v power2_eq_square algebra_simps)
  moreover have "0 \<le> (a1 * b2 - a2 * b1)\<^sup>2 + (a1 * b3 - a3 * b1)\<^sup>2 + (a2 * b3 - a3 * b2)\<^sup>2"
    by simp
  ultimately show ?thesis by linarith
qed


lemma np_linalg_norm_sq:
  "np_mul (np_linalg_norm (fvec d)) (np_linalg_norm (fvec d)) = Fin (rdot d d)"
  using rdot_self_nonneg [of d] by (simp add: np_linalg_norm_def np_dot_fvec)

lemma beta_of_fvec: "beta_of (fvec n) (fvec p) (fvec x) = Fin (rbeta n p x)"
  by (simp add: beta_of_def vsub_fvec np_dot_fvec rbeta_def)

lemma alpha_of_fvec:
  "alpha_of (fvec n) (fvec p) (fvec x) =
     (if radicand n p x < 0 then NaN else Fin (ralpha n p x))"
  by (simp add: alpha_of_def Let_def vsub_fvec np_dot_fvec np_linalg_norm_sq np_sub_def
      radicand_def ralpha_def power2_eq_square)

subsection \<open>Bin indices\<close>


lemma bin_indices_Fin:
  "b \<noteq> 0 \<Longrightarrow> bin_indices (Fin a) (Fin be) (Fin b) res =
     Inr (\<lfloor>real_of_int res / 2 - be / b\<rfloor>, \<lfloor>a / b\<rfloor>)"
  by (simp add: bin_indices_def i_f_def j_f_def np_sub_def)




subsection \<open>Accumulation on a histogram of finite numbers\<close>



lemma square_nth: "square n g \<Longrightarrow> r < n \<Longrightarrow> length (g ! r) = n"
  by (simp add: square_def list_all_length)

lemma square_radd_at: "square n rg \<Longrightarrow> square n (radd_at rg r c w)"
proof -
  assume sq: "square n rg"
  have "length (rg[r := (rg ! r)[c := rg ! r ! c + w]] ! k) = n" if "k < n" for k
    using sq that by (cases "k = r") (simp_all add: square_def list_all_length)
  then show ?thesis
    using sq by (simp add: square_def radd_at_def list_all_length)
qed


lemma square_fgrid: "square n (fgrid rg) = square n rg"
  by (simp add: square_def fgrid_def list_all_length)

lemma iadd_at_fgrid:
  assumes "square n rg" "0 \<le> i" "i < int n" "0 \<le> j" "j < int n"
  shows "iadd_at (fgrid rg) i j (Fin w) = Inr (fgrid (radd_at rg (nat i) (nat j) w))"
proof -
  have len: "length rg = n" "length (rg ! nat i) = n"
    using assms by (simp_all add: square_def list_all_length)
  then show ?thesis
    using assms
    by (simp add: iadd_at_def np_index_def fgrid_def radd_at_def map_update)
qed

lemma bilinear_weights_Fin:
  "bilinear_weights (Fin a) (Fin b) =
     (Fin ((1 - a) * (1 - b)), Fin (a * (1 - b)), Fin ((1 - a) * b), Fin (a * b))"
  by (simp add: bilinear_weights_def np_sub_def)


lemma accumulate_fgrid:
  assumes sq: "square n rg" and inb: "in_bounds (int n) i j"
  shows "accumulate (fgrid rg) i j (Fin a) (Fin b) = Inr (fgrid (raccumulate rg (nat i) (nat j) a b))"
proof -
  have i: "0 \<le> i" "i + 1 < int n" and j: "0 \<le> j" "j + 1 < int n"
    using inb by (simp_all add: in_bounds_def)
  have n1: "nat (i + 1) = nat i + 1" "nat (j + 1) = nat j + 1"
    using i j by simp_all
  define g1 where "g1 = radd_at rg (nat i) (nat j) ((1 - a) * (1 - b))"
  define g2 where "g2 = radd_at g1 (nat i + 1) (nat j) (a * (1 - b))"
  define g3 where "g3 = radd_at g2 (nat i) (nat j + 1) ((1 - a) * b)"
  have s1: "square n g1" unfolding g1_def by (rule square_radd_at [OF sq])
  have s2: "square n g2" unfolding g2_def by (rule square_radd_at [OF s1])
  have s3: "square n g3" unfolding g3_def by (rule square_radd_at [OF s2])
  have e1: "iadd_at (fgrid rg) i j (Fin ((1 - a) * (1 - b))) = Inr (fgrid g1)"
    unfolding g1_def using i j by (intro iadd_at_fgrid [OF sq]) simp_all
  have e2: "iadd_at (fgrid g1) (i + 1) j (Fin (a * (1 - b))) = Inr (fgrid g2)"
    unfolding g2_def n1 [symmetric] using i j by (intro iadd_at_fgrid [OF s1]) simp_all
  have e3: "iadd_at (fgrid g2) i (j + 1) (Fin ((1 - a) * b)) = Inr (fgrid g3)"
    unfolding g3_def n1 [symmetric] using i j by (intro iadd_at_fgrid [OF s2]) simp_all
  have e4: "iadd_at (fgrid g3) (i + 1) (j + 1) (Fin (a * b))
              = Inr (fgrid (radd_at g3 (nat i + 1) (nat j + 1) (a * b)))"
    unfolding n1 [symmetric] using i j by (intro iadd_at_fgrid [OF s3]) simp_all
  have "accumulate (fgrid rg) i j (Fin a) (Fin b)
          = Inr (fgrid (radd_at g3 (nat i + 1) (nat j + 1) (a * b)))"
    by (simp add: accumulate_def bilinear_weights_Fin e1 e2 e3 e4)
  moreover have "radd_at g3 (nat i + 1) (nat j + 1) (a * b) = raccumulate rg (nat i) (nat j) a b"
    by (simp add: raccumulate_def g1_def g2_def g3_def)
  ultimately show ?thesis by simp
qed









subsection \<open>The bounds check\<close>

lemma spin_loop_single:
  "spin_loop n_A Oref bin_size res thr SI [(x, n_B)] =
     (if outside_support_angle n_A n_B thr then Inr SI
      else bin_neighbor n_A Oref bin_size res SI x)"
  by (simp split: sum.splits)

text \<open>
  Claim C6. A neighbour whose indices were computed contributes only when
  \<open>0 \<le> i < resolution - 1\<close> and \<open>0 \<le> j < resolution - 1\<close>. Outside this range,
  and in particular at index \<open>resolution - 1\<close>, the step of the loop returns the
  histogram unchanged and raises nothing.
\<close>

theorem out_of_bounds_dropped:
  assumes idx: "bin_indices (alpha_of n_A Oref x) (beta_of n_A Oref x) bin_size res = Inr (i, j)"
  shows "(\<not> in_bounds res i j \<longrightarrow>
            spin_loop n_A Oref bin_size res cos_threshold SI [(x, n_B)] = Inr SI)
       \<and> (i = res - 1 \<or> j = res - 1 \<longrightarrow> \<not> in_bounds res i j)
       \<and> (in_bounds res i j \<longleftrightarrow> 0 \<le> i \<and> i < res - 1 \<and> 0 \<le> j \<and> j < res - 1)
       \<and> (\<forall>SI'. spin_loop n_A Oref bin_size res cos_threshold SI [(x, n_B)] = Inr SI' \<and> SI' \<noteq> SI
             \<longrightarrow> in_bounds res i j)"
  using idx by (auto simp: spin_loop_single bin_neighbor_def Let_def in_bounds_def)

lemma example_boundary:
  "bin_indices (alpha_of (fvec (0, 0, 1)) (fvec (0, 0, 0)) (fvec (0, 0, - 1)))
     (beta_of (fvec (0, 0, 1)) (fvec (0, 0, 0)) (fvec (0, 0, - 1))) (Fin 1) 4 = Inr (3, 0)"
proof -
  have "radicand (0, 0, 1) (0, 0, 0) (0, 0, - 1) = 0"
    by (simp add: radicand_def)
  then show ?thesis
    by (simp add: alpha_of_fvec beta_of_fvec ralpha_def rbeta_def bin_indices_Fin)
qed

theorem out_of_bounds_dropped_witness:
  "spin_loop (fvec (0, 0, 1)) (fvec (0, 0, 0)) (Fin 1) 4 (Fin (- 1)) (zero_grid 4)
     [(fvec (0, 0, - 1), fvec (0, 0, 1))] = Inr (zero_grid 4)
   \<and> \<not> in_bounds 4 3 0"
  using out_of_bounds_dropped [OF example_boundary, of "Fin (- 1)" "zero_grid 4" "fvec (0, 0, 1)"]
  by (simp add: in_bounds_def)

subsection \<open>Neighbour sets that contribute nothing\<close>

lemma spin_loop_all_dropped:
  "list_all (dropped n_A Oref bin_size res thr) nbrs \<Longrightarrow>
     spin_loop n_A Oref bin_size res thr SI nbrs = Inr SI"
proof (induction nbrs)
  case Nil
  then show ?case by simp
next
  case (Cons nb nbrs)
  obtain x n_B where nb: "nb = (x, n_B)" by (cases nb)
  from Cons.prems have d: "dropped n_A Oref bin_size res thr (x, n_B)"
    and rest: "list_all (dropped n_A Oref bin_size res thr) nbrs"
    by (simp_all add: nb)
  have "outside_support_angle n_A n_B thr \<or> bin_neighbor n_A Oref bin_size res SI x = Inr SI"
    using d by (auto simp: dropped_def bin_neighbor_def Let_def split: sum.splits)
  then show ?case
    using Cons.IH [OF rest] by (auto simp: nb)
qed

text \<open>
  Claim C8. For a resolution that is not negative, an empty neighbour set, and
  any neighbour set whose points are all skipped by the angle test or fail the
  bounds check, give no error and a \<open>resolution \<times> resolution\<close> histogram of
  zeros.
\<close>

theorem no_contribution_zero_grid:
  assumes res: "0 \<le> res"
  shows "compute_spin_image_with_support_angle (Oref, n_A) \<lparr>points = [], normals = []\<rparr>
           support_radius bin_size res support_angle = Inr (zero_grid res)
       \<and> (list_all (dropped n_A Oref bin_size res (np_cos support_angle))
             (zip (points chnk) (normals chnk)) \<longrightarrow>
           compute_spin_image_with_support_angle (Oref, n_A) chnk
             support_radius bin_size res support_angle = Inr (zero_grid res))
       \<and> square (nat res) (zero_grid res)
       \<and> list_all (list_all (\<lambda>v. v = Fin 0)) (zero_grid res)"
  using res
  by (auto simp: compute_spin_image_with_support_angle_def np_zeros_def zero_grid_def
      spin_loop_all_dropped square_def list_all_length)

theorem no_contribution_zero_grid_witness:
  "compute_spin_image_with_support_angle (fvec (0, 0, 0), fvec (0, 0, 1))
     \<lparr>points = [fvec (0, 0, - 1), fvec (0, 0, 0)], normals = [fvec (0, 0, 1), fvec (0, 0, - 1)]\<rparr>
     (Fin 1) (Fin 1) 4 (Fin 0) = Inr (zero_grid 4)
   \<and> compute_spin_image_with_support_angle (fvec (0, 0, 0), fvec (0, 0, 1))
     \<lparr>points = [], normals = []\<rparr> (Fin 1) (Fin 1) 4 (Fin 0) = Inr (zero_grid 4)"
proof -
  have "list_all (dropped (fvec (0, 0, 1)) (fvec (0, 0, 0)) (Fin 1) 4 (np_cos (Fin 0)))
          (zip (points \<lparr>points = [fvec (0, 0, - 1), fvec (0, 0, 0)],
                         normals = [fvec (0, 0, 1), fvec (0, 0, - 1)]\<rparr>)
               (normals \<lparr>points = [fvec (0, 0, - 1), fvec (0, 0, 0)],
                          normals = [fvec (0, 0, 1), fvec (0, 0, - 1)]\<rparr>))"
    by (simp add: dropped_def outside_support_angle_def example_boundary in_bounds_def)
  then show ?thesis
    using no_contribution_zero_grid [of 4 "fvec (0, 0, 0)" "fvec (0, 0, 1)" "Fin 1" "Fin 1" "Fin 0"
        "\<lparr>points = [fvec (0, 0, - 1), fvec (0, 0, 0)], normals = [fvec (0, 0, 1), fvec (0, 0, - 1)]\<rparr>"]
    by simp
qed

subsection \<open>The support radius\<close>

text \<open>
  Claim C9. Two calls that differ only in the support radius return the same
  result.
\<close>

theorem support_radius_unused:
  "compute_spin_image_with_support_angle oriented_point chnk r1 bin_size res support_angle
     = compute_spin_image_with_support_angle oriented_point chnk r2 bin_size res support_angle"
  by (simp add: compute_spin_image_with_support_angle_def)

subsection \<open>The boundary of the support cone\<close>

lemma np_less_irrefl: "\<not> np_less v v"
  by (cases v) simp_all

text \<open>
  Claim C10. A neighbour whose normal has a dot product with the reference
  normal equal to the cosine of the support angle is not skipped: the comparison
  is strict, and the neighbour goes on to the binning.
\<close>

theorem cone_boundary_accepted:
  assumes eq: "np_dot n_A n_B = np_cos support_angle"
  shows "\<not> outside_support_angle n_A n_B (np_cos support_angle)
       \<and> spin_loop n_A Oref bin_size res (np_cos support_angle) SI [(x, n_B)]
           = bin_neighbor n_A Oref bin_size res SI x"
  using eq by (simp add: spin_loop_single outside_support_angle_def np_less_irrefl del: spin_loop.simps)

theorem cone_boundary_accepted_witness:
  "np_dot (fvec (0, 0, 1)) (fvec (0, 0, 1)) = np_cos (Fin 0)
   \<and> \<not> outside_support_angle (fvec (0, 0, 1)) (fvec (0, 0, 1)) (np_cos (Fin 0))
   \<and> spin_loop (fvec (0, 0, 1)) (fvec (0, 0, 0)) (Fin 1) 4 (np_cos (Fin 0)) (zero_grid 4)
        [(fvec (0, 0, 0), fvec (0, 0, 1))]
      = bin_neighbor (fvec (0, 0, 1)) (fvec (0, 0, 0)) (Fin 1) 4 (zero_grid 4) (fvec (0, 0, 0))"
proof -
  have eq: "np_dot (fvec (0, 0, 1)) (fvec (0, 0, 1)) = np_cos (Fin 0)" by simp
  show ?thesis
    using eq cone_boundary_accepted [OF eq, of "fvec (0, 0, 0)" "Fin 1" 4 "zero_grid 4" "fvec (0, 0, 0)"]
    by blast
qed

subsection \<open>The angle test\<close>


lemma unit_dot_ge: "unit_vec a \<Longrightarrow> unit_vec b \<Longrightarrow> - 1 \<le> rdot a b"
proof -
  assume "unit_vec a" "unit_vec b"
  then have "(rdot a b)\<^sup>2 \<le> 1\<^sup>2"
    using rdot_cauchy_schwarz [of a b] by (simp add: unit_vec_def)
  then have "\<bar>rdot a b\<bar> \<le> \<bar>1\<bar>"
    by (simp only: abs_le_square_iff)
  then show ?thesis by simp
qed

lemma unit_accepted_at_pi:
  "unit_vec a \<Longrightarrow> unit_vec b \<Longrightarrow> \<not> outside_support_angle (fvec a) (fvec b) (Fin (- 1))"
  using unit_dot_ge [of a b] by (simp add: outside_support_angle_def)




subsection \<open>An example\<close>

lemma example_grid: "zero_grid 4 = fgrid [[0, 0, 0, 0], [0, 0, 0, 0], [0, 0, 0, 0], [0, 0, 0, 0]]"
  by (simp add: zero_grid_def fgrid_def numeral_eq_Suc)

lemma example_square: "square 4 [[0, 0, 0, 0], [0, 0, 0, 0], [0, 0, 0, 0], [0, 0, 0, 0 :: real]]"
  by (simp add: square_def)

lemma example_raccumulate:
  "raccumulate [[0, 0, 0, 0], [0, 0, 0, 0], [0, 0, 0, 0], [0, 0, 0, 0]] (Suc 0) 0 0 0
     = [[0, 0, 0, 0], [1, 0, 0, 0], [0, 0, 0, 0], [0, 0, 0, 0]]"
  by (simp add: raccumulate_def radd_at_def)

lemma example_coordinates:
  "vsub (fvec (0, 0, 1)) (fvec (0, 0, 0)) = fvec (0, 0, 1)"
  "beta_of (fvec (0, 0, 1)) (fvec (0, 0, 0)) (fvec (0, 0, 1)) = Fin 1"
  "alpha_of (fvec (0, 0, 1)) (fvec (0, 0, 0)) (fvec (0, 0, 1)) = Fin 0"
  "i_f (Fin 1) (Fin 1) 4 = Fin 1"
  "j_f (Fin 0) (Fin 1) = Fin 0"
proof -
  have "radicand (0, 0, 1) (0, 0, 0) (0, 0, 1) = 0"
    by (simp add: radicand_def)
  then show "alpha_of (fvec (0, 0, 1)) (fvec (0, 0, 0)) (fvec (0, 0, 1)) = Fin 0"
    by (simp add: alpha_of_fvec ralpha_def)
qed (simp_all add: beta_of_fvec rbeta_def i_f_def j_f_def np_sub_def)

text \<open>
  Claim C7. Resolution 4, bin size 1, support angle \<open>\<pi>\<close>, the reference point at
  the origin with normal \<open>(0, 0, 1)\<close> and one neighbour at \<open>(0, 0, 1)\<close> with any
  unit normal: \<open>d = (0, 0, 1)\<close>, \<open>\<beta> = 1\<close>, \<open>\<alpha> = 0\<close>, the coordinates are
  \<open>1\<close> and \<open>0\<close>, and the result has \<open>1\<close> in bin \<open>(1, 0)\<close> and \<open>0\<close> in every
  other bin.
\<close>

theorem end_to_end_example:
  assumes b: "unit_vec b"
  shows "compute_spin_image_with_support_angle (fvec (0, 0, 0), fvec (0, 0, 1))
           \<lparr>points = [fvec (0, 0, 1)], normals = [fvec b]\<rparr> support_radius (Fin 1) 4 (Fin pi)
         = Inr (fgrid [[0, 0, 0, 0], [1, 0, 0, 0], [0, 0, 0, 0], [0, 0, 0, 0]])
       \<and> vsub (fvec (0, 0, 1)) (fvec (0, 0, 0)) = fvec (0, 0, 1)
       \<and> beta_of (fvec (0, 0, 1)) (fvec (0, 0, 0)) (fvec (0, 0, 1)) = Fin 1
       \<and> alpha_of (fvec (0, 0, 1)) (fvec (0, 0, 0)) (fvec (0, 0, 1)) = Fin 0
       \<and> i_f (Fin 1) (Fin 1) 4 = Fin 1
       \<and> j_f (Fin 0) (Fin 1) = Fin 0"
proof -
  have a: "unit_vec (0, 0, 1)" by (simp add: unit_vec_def)
  have ang: "\<not> outside_support_angle (fvec (0, 0, 1)) (fvec b) (Fin (- 1))"
    by (rule unit_accepted_at_pi [OF a b])
  have idx: "bin_indices (Fin 0) (Fin 1) (Fin 1) 4 = Inr (1, 0)"
    by (simp add: bin_indices_Fin)
  have fr: "frac_a (Fin 0) (Fin 1) 0 = Fin 0" "frac_b (Fin 1) (Fin 1) 4 1 = Fin 0"
    by (simp_all add: frac_a_def frac_b_def np_sub_def)
  have inb: "in_bounds (int 4) 1 0" by (simp add: in_bounds_def)
  have z: "replicate 4 (replicate 4 (Fin 0)) = zero_grid 4" by (simp add: zero_grid_def)
  have acc: "accumulate (zero_grid 4) 1 0 (Fin 0) (Fin 0)
               = Inr (fgrid [[0, 0, 0, 0], [1, 0, 0, 0], [0, 0, 0, 0], [0, 0, 0, 0]])"
    using accumulate_fgrid [OF example_square inb, of 0 0]
    by (simp add: example_grid example_raccumulate)
  have "bin_neighbor (fvec (0, 0, 1)) (fvec (0, 0, 0)) (Fin 1) 4 (zero_grid 4) (fvec (0, 0, 1))
          = Inr (fgrid [[0, 0, 0, 0], [1, 0, 0, 0], [0, 0, 0, 0], [0, 0, 0, 0]])"
    using inb by (simp add: bin_neighbor_def example_coordinates idx fr acc)
  then have "compute_spin_image_with_support_angle (fvec (0, 0, 0), fvec (0, 0, 1))
           \<lparr>points = [fvec (0, 0, 1)], normals = [fvec b]\<rparr> support_radius (Fin 1) 4 (Fin pi)
         = Inr (fgrid [[0, 0, 0, 0], [1, 0, 0, 0], [0, 0, 0, 0], [0, 0, 0, 0]])"
    using ang
    by (simp add: compute_spin_image_with_support_angle_def np_zeros_def Let_def z)
  then show ?thesis
    by (simp add: example_coordinates)
qed

theorem end_to_end_example_witness:
  "compute_spin_image_with_support_angle (fvec (0, 0, 0), fvec (0, 0, 1))
     \<lparr>points = [fvec (0, 0, 1)], normals = [fvec (0, 0, - 1)]\<rparr> (Fin 5) (Fin 1) 4 (Fin pi)
   = Inr (fgrid [[0, 0, 0, 0], [1, 0, 0, 0], [0, 0, 0, 0], [0, 0, 0, 0]])"
proof -
  have "unit_vec (0, 0, - 1)" by (simp add: unit_vec_def)
  from end_to_end_example [OF this, of "Fin 5"] show ?thesis by blast
qed

subsection \<open>The square root has no clamp\<close>





subsection \<open>No validation of the inputs\<close>

















end
